theory Spec2Isabelle
  imports Main "HOL-Library.Word"
begin

section \<open>Data model of the inbound message processor\<close>

text \<open>
  The processor (package \<open>processor\<close>, file \<open>processor.go\<close>) sits behind the peer layer of a
  gossip node.  It is modelled by explicit state passing: every Go function becomes a
  function from the state of the node before the call to the state after it.

  Bytes are \<open>8 word\<close>, a peer is identified by its \<open>ID\<close> (a Go string), a message
  identifier (\<open>hornet.Hash\<close>) is a byte slice, a milestone index is an unsigned 32-bit
  integer, and a request handle of the request queue is opaque (only its identity matters).
\<close>

type_synonym byte = "8 word"
type_synonym bytes = "byte list"
type_synonym peer_id = string
type_synonym hash = bytes
type_synonym milestone_index = "32 word"
type_synonym request = nat
type_synonym message_type = "8 word"

datatype go_error = GoError string

text \<open>A run-time panic of the Go program (a method called through a nil pointer).\<close>

datatype fault = NilPointerDereference

datatype deseri_mode = DeSeriModeNoValidation | DeSeriModePerformValidation

text \<open>
  Modelled from the spec:
  \<open>tangle.Message\<close> is declared outside the sources.  The processor reads two things of a
  message: its identifier (\<open>GetMessageID()\<close>) and its raw bytes (\<open>RawBytes\<close>).
\<close>

record message =
  MessageID :: hash
  RawBytes :: bytes

text \<open>
  Modelled from the spec:
  a cached milestone is declared outside the sources.  The processor reads one thing of
  it: its constituent transactions, the messages \<open>GetTransactions()\<close> yields.
\<close>

record milestone =
  Transactions :: "message list"

text \<open>
  Modelled from the spec:
  \<open>bqueue.Broadcast\<close> is declared outside the sources: a value carrying the serialized bytes
  plus the exclusion set of peers to skip (section 3).  A field that a Go struct literal
  does not name has its zero value, and the zero value of a map is empty.
\<close>

record Broadcast =
  MsgData :: bytes
  ExcludePeers :: "peer_id set"

text \<open>The two events of \<open>Events\<close>, with the parameters \<open>Trigger\<close> is called with.\<close>

datatype event =
    MessageProcessed message "request option" "peer_id option"
  | BroadcastMessage Broadcast

text \<open>
  Modelled from the spec:
  the state of a work unit is one of \<open>Unhashed\<close>, \<open>Hashing\<close>, \<open>Hashed\<close>, \<open>Invalid\<close>; the
  initial state is \<open>Unhashed\<close> (section 3).  The type is declared outside the sources.
\<close>

datatype WorkUnitState = Unhashed | Hashing | Invalid | Hashed

text \<open>
  Modelled from the spec:
  \<open>WorkUnit\<close> is declared outside the sources.  Its fields are the ones \<open>processWorkUnit\<close>
  reads and writes (\<open>receivedMsgBytes\<close>, \<open>receivedTxHash\<close>, \<open>receivedMsgID\<close>, \<open>msg\<close>), the state,
  and \<open>received_from\<close>, which records for every peer that delivered the payload the request
  it satisfied, if any (section 3).  The two locks of a work unit do nothing in a run
  without interleaving; the processing lock appears in the interleaving model further
  down.
\<close>

record WorkUnit =
  receivedMsgBytes :: bytes
  receivedTxHash :: bytes
  receivedMsgID :: "hash option"
  msg :: "message option"
  state :: WorkUnitState
  receivedFrom :: "(peer_id \<times> request option) list"

subsection \<open>External collaborators\<close>

text \<open>
  The tangle storage, the request queue, the wire codec and the event handlers live
  outside the processor.  Their code is a parameter of the model: \<open>'x\<close> is the state of
  the tangle and of the request queue together, and the record below holds the functions
  the processor calls on it, the wire-protocol constants and the static block list.
  \<open>NewTransactionMessage\<close> returns a pair as in Go (message, error); the processor ignores
  the error.  The handlers subscribed to the two events run synchronously inside
  \<open>Trigger\<close> and may change the tangle and the request queue.
\<close>

record 'x env =
  MessageFromBytes :: "bytes \<Rightarrow> deseri_mode \<Rightarrow> go_error + message"
  Serialize :: "message \<Rightarrow> deseri_mode \<Rightarrow> go_error + bytes"
  Received :: "hash \<Rightarrow> 'x \<Rightarrow> request option \<times> 'x"
  ContainsMessage :: "hash \<Rightarrow> 'x \<Rightarrow> bool"
  GetCachedMessageOrNil :: "hash \<Rightarrow> 'x \<Rightarrow> message option"
  GetLatestMilestoneIndex :: "'x \<Rightarrow> milestone_index"
  GetMilestoneOrNil :: "milestone_index \<Rightarrow> 'x \<Rightarrow> milestone option"
  ExtractRequestedMilestoneIndex :: "bytes \<Rightarrow> go_error + milestone_index"
  NewTransactionMessage :: "bytes \<Rightarrow> bytes \<times> go_error option"
  LatestMilestoneRequestIndex :: milestone_index
  MessageTypeTransaction :: message_type
  MessageTypeTransactionRequest :: message_type
  MessageTypeMilestoneRequest :: message_type
  invalidMilestoneHashes :: "bytes set"
  onMessageProcessed :: "message \<Rightarrow> request option \<Rightarrow> peer_id option \<Rightarrow> 'x \<Rightarrow> 'x"
  onBroadcastMessage :: "Broadcast \<Rightarrow> 'x \<Rightarrow> 'x"

text \<open>
  The state of the node that the processor reads and writes: the external state \<open>ext\<close>,
  the three server counters (the number of \<open>Inc()\<close> calls made on each), the peers'
  \<open>KnownTransactions\<close> counters, the calls made to \<open>peering.Manager.Remove\<close> and to
  \<open>Peer.EnqueueForSending\<close> in the order they were made, the events fired in the order
  they were fired, and the cache of work units keyed by the received bytes.
\<close>

record 'x world =
  ext :: 'x
  InvalidRequests :: nat
  InvalidTransactions :: nat
  KnownTransactions :: nat
  peerKnownTransactions :: "peer_id \<Rightarrow> nat"
  removed :: "peer_id list"
  enqueued :: "(peer_id \<times> bytes) list"
  fired :: "event list"
  workUnits :: "bytes \<Rightarrow> WorkUnit option"

definition Remove :: "peer_id \<Rightarrow> 'x world \<Rightarrow> 'x world" where
  "Remove p w = w\<lparr>removed := removed w @ [p]\<rparr>"

definition EnqueueForSending :: "peer_id \<Rightarrow> bytes \<Rightarrow> 'x world \<Rightarrow> 'x world" where
  "EnqueueForSending p m w = w\<lparr>enqueued := enqueued w @ [(p, m)]\<rparr>"

text \<open>\<open>Event.Trigger\<close>: the event is fired and its handlers run on the external state.\<close>

definition Trigger :: "'x env \<Rightarrow> event \<Rightarrow> 'x world \<Rightarrow> 'x world" where
  "Trigger env ev w =
     w\<lparr>ext := (case ev of
                 MessageProcessed m r p \<Rightarrow> onMessageProcessed env m r p (ext w)
               | BroadcastMessage b \<Rightarrow> onBroadcastMessage env b (ext w)),
       fired := fired w @ [ev]\<rparr>"

section \<open>Local injection and the two request handlers\<close>

text \<open>
  \<open>SerializeAndEmit\<close> (lines 125-136): the error of \<open>Serialize\<close> is returned before any
  event; otherwise \<open>MessageProcessed\<close> is triggered with a nil request and a nil peer,
  then \<open>BroadcastMessage\<close> with \<open>&bqueue.Broadcast{MsgData: msgData}\<close>.
\<close>

definition SerializeAndEmit ::
  "'x env \<Rightarrow> message \<Rightarrow> deseri_mode \<Rightarrow> 'x world \<Rightarrow> go_error option \<times> 'x world" where
  "SerializeAndEmit env m deSeriMode w =
     (case Serialize env m deSeriMode of
        Inl err \<Rightarrow> (Some err, w)
      | Inr msgData \<Rightarrow>
          (None,
           Trigger env (BroadcastMessage \<lparr>MsgData = msgData, ExcludePeers = {}\<rparr>)
             (Trigger env (MessageProcessed m None None) w)))"

text \<open>\<open>processMessageRequest\<close> (lines 184-198).\<close>

definition processMessageRequest :: "'x env \<Rightarrow> peer_id \<Rightarrow> bytes \<Rightarrow> 'x world \<Rightarrow> 'x world" where
  "processMessageRequest env p data w =
     (if length data \<noteq> 49 then w
      else case GetCachedMessageOrNil env data (ext w) of
             None \<Rightarrow> w
           | Some cachedMsg \<Rightarrow>
               EnqueueForSending p (fst (NewTransactionMessage env (RawBytes cachedMsg))) w)"

text \<open>
  \<open>processMilestoneRequest\<close> (lines 153-181).  The loop over the milestone's messages is a
  recursion over the list.
\<close>

fun enqueueAll :: "'x env \<Rightarrow> peer_id \<Rightarrow> message list \<Rightarrow> 'x world \<Rightarrow> 'x world" where
  "enqueueAll env p [] w = w"
| "enqueueAll env p (cachedMsgToSend # rest) w =
     enqueueAll env p rest
       (EnqueueForSending p (fst (NewTransactionMessage env (RawBytes cachedMsgToSend))) w)"

definition processMilestoneRequest :: "'x env \<Rightarrow> peer_id \<Rightarrow> bytes \<Rightarrow> 'x world \<Rightarrow> 'x world" where
  "processMilestoneRequest env p data w =
     (case ExtractRequestedMilestoneIndex env data of
        Inl err \<Rightarrow> Remove p (w\<lparr>InvalidRequests := InvalidRequests w + 1\<rparr>)
      | Inr requested \<Rightarrow>
          (let msIndex = (if requested = LatestMilestoneRequestIndex env
                          then GetLatestMilestoneIndex env (ext w) else requested)
           in case GetMilestoneOrNil env msIndex (ext w) of
                None \<Rightarrow> w
              | Some cachedReqMs \<Rightarrow> enqueueAll env p (Transactions cachedReqMs) w))"

section \<open>Work units\<close>

text \<open>
  The methods of \<open>WorkUnit\<close> (\<open>Is\<close>, \<open>UpdateState\<close>, \<open>addReceivedFrom\<close>, \<open>punish\<close>,
  \<open>increaseKnownTxCount\<close>, \<open>broadcast\<close>) and \<open>newWorkUnit\<close> are declared in a file of the package
  that is not among the sources; the processor only calls them.  Each definition below
  follows section 4.1 of the specification.
\<close>

text \<open>
  Modelled from the spec:
  \<open>is(state)\<close> is a constant-time read of the state.  (\<open>WorkUnit.Is\<close> is not in the sources.)
\<close>

definition Is :: "WorkUnit \<Rightarrow> WorkUnitState \<Rightarrow> bool" where
  "Is wu s = (state wu = s)"

text \<open>
  Modelled from the spec:
  \<open>update_state(new_state)\<close> sets the state.  (\<open>WorkUnit.UpdateState\<close> is not in the sources.)
\<close>

definition UpdateState :: "WorkUnitState \<Rightarrow> WorkUnit \<Rightarrow> WorkUnit" where
  "UpdateState s wu = wu\<lparr>state := s\<rparr>"

text \<open>
  Modelled from the spec:
  a work unit is created with the received bytes, in state \<open>Unhashed\<close>, with no parsed
  message, no identifier and nobody in \<open>received_from\<close>.  (\<open>newWorkUnit\<close> is not in the
  sources.)
\<close>

definition newWorkUnit :: "bytes \<Rightarrow> WorkUnit" where
  "newWorkUnit receivedTxBytes =
     \<lparr>receivedMsgBytes = receivedTxBytes, receivedTxHash = [], receivedMsgID = None,
      msg = None, state = Unhashed, receivedFrom = []\<rparr>"

text \<open>
  Modelled from the spec:
  the entry of a peer in \<open>received_from\<close>: calls with the same peer coalesce and the first
  non-null request reference is retained.  (\<open>WorkUnit.addReceivedFrom\<close> is not in the
  sources; this is its loop.)
\<close>

fun recordPeer ::
  "peer_id \<Rightarrow> request option \<Rightarrow> (peer_id \<times> request option) list
     \<Rightarrow> (peer_id \<times> request option) list" where
  "recordPeer p r [] = [(p, r)]"
| "recordPeer p r ((q, r') # rest) =
     (if q = p then (q, (case r' of None \<Rightarrow> r | Some x \<Rightarrow> Some x)) # rest
      else (q, r') # recordPeer p r rest)"

text \<open>
  Modelled from the spec:
  \<open>add_received_from(peer_id, request_ref?)\<close> idempotently records that the peer delivered
  the payload.  (\<open>WorkUnit.addReceivedFrom\<close> is not in the sources.)
\<close>

definition addReceivedFrom :: "peer_id \<Rightarrow> request option \<Rightarrow> WorkUnit \<Rightarrow> WorkUnit" where
  "addReceivedFrom p r wu = wu\<lparr>receivedFrom := recordPeer p r (receivedFrom wu)\<rparr>"

text \<open>
  Modelled from the spec:
  the punishment of the senders, one after the other.  \<open>punish()\<close>, for each peer in
  \<open>received_from\<close>, invokes the peer manager's remove hook (section 4.1).  Section 7 gives
  "mark the work unit Invalid, punish all senders, increment invalid-transactions" as the
  disposition of a parse error, and \<open>processWorkUnit\<close> has no increment of its own on that
  path (lines 251-256), so the increment belongs to the punishment of a sender (scenario
  S2: one sender, counter 1).  (\<open>WorkUnit.punish\<close> is not in the sources; this is its loop.)
\<close>

fun punishAll :: "peer_id list \<Rightarrow> 'x world \<Rightarrow> 'x world" where
  "punishAll [] w = w"
| "punishAll (p # ps) w =
     punishAll ps (Remove p (w\<lparr>InvalidTransactions := InvalidTransactions w + 1\<rparr>))"

text \<open>
  Modelled from the spec:
  \<open>punish()\<close> punishes every peer in \<open>received_from\<close>.  (\<open>WorkUnit.punish\<close> is not in the
  sources.)
\<close>

definition punish :: "WorkUnit \<Rightarrow> 'x world \<Rightarrow> 'x world" where
  "punish wu w = punishAll (map fst (receivedFrom wu)) w"

text \<open>
  Modelled from the spec:
  for each peer other than \<open>except_peer\<close>, that peer's known-transaction counter is
  incremented.  (\<open>WorkUnit.increaseKnownTxCount\<close> is not in the sources; this is its loop.)
\<close>

fun increaseKnownAll :: "peer_id \<Rightarrow> peer_id list \<Rightarrow> 'x world \<Rightarrow> 'x world" where
  "increaseKnownAll excludedPeer [] w = w"
| "increaseKnownAll excludedPeer (p # ps) w =
     increaseKnownAll excludedPeer ps
       (if p = excludedPeer then w
        else w\<lparr>peerKnownTransactions :=
                 (peerKnownTransactions w)(p := peerKnownTransactions w p + 1)\<rparr>)"

text \<open>
  Modelled from the spec:
  \<open>increase_known_count(except_peer)\<close>, for each peer in \<open>received_from\<close> other than
  \<open>except_peer\<close>, increments that peer's known-transaction counter.
  (\<open>WorkUnit.increaseKnownTxCount\<close> is not in the sources.)
\<close>

definition increaseKnownTxCount :: "WorkUnit \<Rightarrow> peer_id \<Rightarrow> 'x world \<Rightarrow> 'x world" where
  "increaseKnownTxCount wu excludedPeer w =
     increaseKnownAll excludedPeer (map fst (receivedFrom wu)) w"

text \<open>
  Modelled from the spec:
  \<open>broadcast()\<close> constructs a Broadcast value containing the serialized payload and the
  set of peers in \<open>received_from\<close> as the exclusion list.  (\<open>WorkUnit.broadcast\<close> is not in
  the sources.)
\<close>

definition broadcast :: "WorkUnit \<Rightarrow> Broadcast" where
  "broadcast wu =
     \<lparr>MsgData = receivedMsgBytes wu, ExcludePeers = fst ` set (receivedFrom wu)\<rparr>"

section \<open>The transaction payload pipeline\<close>

text \<open>
  \<open>processWorkUnit\<close> (lines 213-298), run without interleaving: the processing lock and the
  data lock are free when the call starts and free when it returns, so in a sequential
  run \<open>Lock\<close> and \<open>Unlock\<close> change nothing.  The work unit is passed in and returned, as the
  Go code mutates it through the pointer.  In the \<open>Hashed\<close> case \<open>wu.msg.GetMessageID()\<close>
  dereferences \<open>wu.msg\<close>; a nil pointer there is a panic.
\<close>

definition processWorkUnit ::
  "'x env \<Rightarrow> WorkUnit \<Rightarrow> peer_id \<Rightarrow> 'x world \<Rightarrow> fault + (WorkUnit \<times> 'x world)" where
  "processWorkUnit env wu p w =
     (if Is wu Hashing then Inr (wu, w)
      else if Is wu Invalid then
        Inr (wu, Remove p (w\<lparr>InvalidTransactions := InvalidTransactions w + 1\<rparr>))
      else if Is wu Hashed then
        (case msg wu of
           None \<Rightarrow> Inl NilPointerDereference
         | Some m \<Rightarrow>
             (let (request, x1) = Received env (MessageID m) (ext w);
                  w1 = w\<lparr>ext := x1\<rparr>
              in case request of
                   Some r \<Rightarrow> Inr (wu, Trigger env (MessageProcessed m (Some r) (Some p)) w1)
                 | None \<Rightarrow>
                     if ContainsMessage env (MessageID m) (ext w1) then
                       Inr (wu, w1\<lparr>KnownTransactions := KnownTransactions w1 + 1,
                                   peerKnownTransactions :=
                                     (peerKnownTransactions w1)
                                       (p := peerKnownTransactions w1 p + 1)\<rparr>)
                     else Inr (wu, w1)))
      else
        (let wu1 = UpdateState Hashing wu in
         case MessageFromBytes env (receivedMsgBytes wu1) DeSeriModePerformValidation of
           Inl err \<Rightarrow>
             (let wu2 = UpdateState Invalid wu1 in Inr (wu2, punish wu2 w))
         | Inr m \<Rightarrow>
             (let (request, x1) = Received env (MessageID m) (ext w);
                  w1 = w\<lparr>ext := x1\<rparr>;
                  wu2 = wu1\<lparr>receivedMsgID := Some (MessageID m), msg := Some m\<rparr>
              in if receivedTxHash wu2 \<in> invalidMilestoneHashes env then
                   (let wu3 = UpdateState Invalid wu2 in Inr (wu3, punish wu3 w1))
                 else
                   (let wu3 = UpdateState Hashed wu2;
                        containsTx = ContainsMessage env (MessageID m) (ext w1);
                        w2 = Trigger env (MessageProcessed m request (Some p)) w1;
                        w3 = increaseKnownTxCount wu3 p w2
                    in if request = None \<and> \<not> containsTx then
                         Inr (wu3, Trigger env (BroadcastMessage (broadcast wu3)) w3)
                       else Inr (wu3, w3)))))"

text \<open>
  \<open>workUnitFor\<close> (lines 144-150): \<open>ComputeIfAbsent\<close> of the object storage returns the cached
  work unit of the key or stores a new one.  The cache hands out a pointer, so
  \<open>processTransaction\<close> (lines 201-207) writes the work unit back under its key when the
  call is over.  Eviction after the cache time is not part of the model: an entry stays.
\<close>

definition workUnitFor :: "bytes \<Rightarrow> 'x world \<Rightarrow> WorkUnit \<times> 'x world" where
  "workUnitFor receivedTxBytes w =
     (case workUnits w receivedTxBytes of
        Some wu \<Rightarrow> (wu, w)
      | None \<Rightarrow>
          (newWorkUnit receivedTxBytes,
           w\<lparr>workUnits := (workUnits w)(receivedTxBytes \<mapsto> newWorkUnit receivedTxBytes)\<rparr>))"

definition processTransaction ::
  "'x env \<Rightarrow> peer_id \<Rightarrow> bytes \<Rightarrow> 'x world \<Rightarrow> fault + 'x world" where
  "processTransaction env p data w =
     (let (workUnit, w1) = workUnitFor data w;
          workUnit1 = addReceivedFrom p None workUnit
      in case processWorkUnit env workUnit1 p w1 of
           Inl f \<Rightarrow> Inl f
         | Inr (workUnit2, w2) \<Rightarrow> Inr (w2\<lparr>workUnits := (workUnits w2)(data \<mapsto> workUnit2)\<rparr>))"

text \<open>
  The task function handed to the worker pool in \<open>New\<close> (lines 61-75): a switch on the
  message type with three cases and no default.
\<close>

definition workerTask ::
  "'x env \<Rightarrow> peer_id \<Rightarrow> message_type \<Rightarrow> bytes \<Rightarrow> 'x world \<Rightarrow> fault + 'x world" where
  "workerTask env p msgType data w =
     (if msgType = MessageTypeTransaction env then processTransaction env p data w
      else if msgType = MessageTypeTransactionRequest env then
        Inr (processMessageRequest env p data w)
      else if msgType = MessageTypeMilestoneRequest env then
        Inr (processMilestoneRequest env p data w)
      else Inr w)"

text \<open>
  A sequence of calls of \<open>processWorkUnit\<close> on one work unit, each on behalf of a peer.
  Between two calls the rest of the node may change the state of the node in any way
  (the function paired with the peer); the work unit itself is private to the processor.
\<close>

fun processWorkUnits ::
  "'x env \<Rightarrow> (peer_id \<times> ('x world \<Rightarrow> 'x world)) list \<Rightarrow> WorkUnit \<Rightarrow> 'x world
     \<Rightarrow> fault + (WorkUnit \<times> 'x world)" where
  "processWorkUnits env [] wu w = Inr (wu, w)"
| "processWorkUnits env ((p, others) # calls) wu w =
     (case processWorkUnit env wu p (others w) of
        Inl f \<Rightarrow> Inl f
      | Inr (wu', w') \<Rightarrow> processWorkUnits env calls wu' w')"

section \<open>A concrete node\<close>

text \<open>
  A small node on which the model can be evaluated.  Its external state is the list of
  messages in the tangle, the outstanding requests and the milestones; a request is
  satisfied (and leaves the queue) when its message is received; the handler of
  \<open>MessageProcessed\<close> stores the message in the tangle.  A payload parses when it is not
  empty and its first byte is not \<open>0xFF\<close>; its identifier is its first byte.
\<close>

record node =
  tangleMessages :: "message list"
  outstanding :: "(hash \<times> request) list"
  tangleMilestones :: "(milestone_index \<times> milestone) list"
  latestMilestone :: milestone_index

definition exampleEnv :: "node env" where
  "exampleEnv =
     \<lparr>MessageFromBytes = (\<lambda>bs mode.
        (case bs of
           [] \<Rightarrow> Inl (GoError ''empty'')
         | b # rest \<Rightarrow> if b = 255 then Inl (GoError ''malformed'')
                      else Inr \<lparr>MessageID = [b], RawBytes = bs\<rparr>)),
      Serialize = (\<lambda>m mode. if RawBytes m = [] then Inl (GoError ''nothing to serialize'')
                            else Inr (RawBytes m)),
      Received = (\<lambda>h x. (map_of (outstanding x) h,
                          x\<lparr>outstanding := filter (\<lambda>e. fst e \<noteq> h) (outstanding x)\<rparr>)),
      ContainsMessage = (\<lambda>h x. h \<in> set (map MessageID (tangleMessages x))),
      GetCachedMessageOrNil = (\<lambda>h x. find (\<lambda>m. MessageID m = h) (tangleMessages x)),
      GetLatestMilestoneIndex = latestMilestone,
      GetMilestoneOrNil = (\<lambda>i x. map_of (tangleMilestones x) i),
      ExtractRequestedMilestoneIndex = (\<lambda>bs.
        (case bs of
           [b0, b1, b2, b3] \<Rightarrow> Inr (word_of_nat (unat b0 + 256 * unat b1 + 65536 * unat b2
                                                  + 16777216 * unat b3))
         | _ \<Rightarrow> Inl (GoError ''not a milestone index''))),
      NewTransactionMessage = (\<lambda>bs. (2 # bs, None)),
      LatestMilestoneRequestIndex = 0,
      MessageTypeTransaction = 2,
      MessageTypeTransactionRequest = 3,
      MessageTypeMilestoneRequest = 1,
      invalidMilestoneHashes = {},
      onMessageProcessed = (\<lambda>m r p x. x\<lparr>tangleMessages := tangleMessages x @ [m]\<rparr>),
      onBroadcastMessage = (\<lambda>b x. x)\<rparr>"

definition exampleNode :: node where
  "exampleNode =
     \<lparr>tangleMessages = [\<lparr>MessageID = replicate 49 7, RawBytes = [7, 7]\<rparr>],
      outstanding = [([9], 1)],
      tangleMilestones =
        [(5, \<lparr>Transactions = [\<lparr>MessageID = [1], RawBytes = [1, 1]\<rparr>,
                              \<lparr>MessageID = [2], RawBytes = [2, 2]\<rparr>]\<rparr>)],
      latestMilestone = 5\<rparr>"

definition exampleWorld :: "node world" where
  "exampleWorld =
     \<lparr>ext = exampleNode, InvalidRequests = 0, InvalidTransactions = 0,
      KnownTransactions = 0, peerKnownTransactions = (\<lambda>p. 0), removed = [],
      enqueued = [], fired = [], workUnits = Map.empty\<rparr>"

text \<open>Work units of the concrete node: two just submitted by peer \<open>A\<close>, and a hashed one.\<close>

definition exampleInvalid :: WorkUnit where
  "exampleInvalid = addReceivedFrom ''A'' None (newWorkUnit [255, 1])"

definition exampleFresh :: WorkUnit where
  "exampleFresh = addReceivedFrom ''A'' None (newWorkUnit [3, 1])"

definition exampleHashed :: "byte \<Rightarrow> WorkUnit" where
  "exampleHashed b =
     \<lparr>receivedMsgBytes = [b, 1], receivedTxHash = [], receivedMsgID = Some [b],
      msg = Some \<lparr>MessageID = [b], RawBytes = [b, 1]\<rparr>, state = Hashed,
      receivedFrom = [(''A'', None)]\<rparr>"

section \<open>Workers running side by side\<close>

text \<open>
  The worker pool runs its task function on several goroutines at once.  The tasks that
  carry a transaction payload are modelled as an interleaving of atomic steps.  The
  program counter of a task is the line of \<open>processor.go\<close> it is about to execute: \<open>L202\<close>
  is line 202, the call of \<open>workUnitFor\<close> in \<open>processTransaction\<close>; \<open>L214\<close> is the \<open>Lock\<close> at
  the head of \<open>processWorkUnit\<close>; \<open>L251\<close> is the call of \<open>tangle.MessageFromBytes\<close>; and so
  on.  \<open>Idle\<close> is a slot of the pool with no task, \<open>Returned\<close> a task that is over, \<open>Panicked\<close>
  a task stopped by a nil pointer.
\<close>

datatype pc =
    Idle | L202 | L205 | L214 | L217 | L218 | L220 | L221 | L223 | L226 | L229 | L230
  | L233 | L234 | L238 | L239 | L240 | L247 | L248 | L251 | L253 | L254 | L259 | L272
  | L276 | L278 | L279 | L283 | L286 | L288 | L291 | L295 | Returned | Panicked

text \<open>
  What a task holds: its program counter, the parameters \<open>p\<close> and \<open>data\<close> of
  \<open>processTransaction\<close>, and the local variables \<open>msg\<close>, \<open>request\<close> and \<open>containsTx\<close> of
  \<open>processWorkUnit\<close>.  The work unit of a task is the entry of the cache under \<open>data\<close>.
\<close>

record task =
  pc :: pc
  taskPeer :: peer_id
  taskData :: bytes
  taskMsg :: "message option"
  taskRequest :: "request option"
  taskContainsTx :: bool

text \<open>
  Modelled from the spec:
  \<open>processingLock\<close> is a field of \<open>WorkUnit\<close>, declared outside the sources: an exclusive lock
  guarding the state transitions of the unit (section 3).  It is held by at most one task;
  the state below records the holder for each key.

  Next to the state of the node and the tasks, three logs record calls in the order they
  were made: \<open>created\<close>, the keys for which \<open>ComputeIfAbsent\<close> called the factory; \<open>hashers\<close>,
  the task and key of each \<open>UpdateState(Hashing)\<close>; \<open>parsed\<close>, the task and the bytes of each
  call of \<open>tangle.MessageFromBytes\<close>.
\<close>

record 'x cstate =
  node :: "'x world"
  processingLock :: "bytes \<Rightarrow> nat option"
  tasks :: "nat \<Rightarrow> task"
  created :: "bytes list"
  hashers :: "(nat \<times> bytes) list"
  parsed :: "(nat \<times> bytes) list"

text \<open>
  A task reaches its work unit through the pointer the cache handed out: \<open>workUnitOf\<close>
  reads the entry of the key and \<open>onWorkUnit\<close> updates it in place.  (The entry exists once
  line 202 has run; eviction is not modelled, so it stays.)
\<close>

definition workUnitOf :: "'x world \<Rightarrow> bytes \<Rightarrow> WorkUnit" where
  "workUnitOf w key = (case workUnits w key of Some wu \<Rightarrow> wu | None \<Rightarrow> newWorkUnit key)"

definition onWorkUnit :: "bytes \<Rightarrow> (WorkUnit \<Rightarrow> WorkUnit) \<Rightarrow> 'x world \<Rightarrow> 'x world" where
  "onWorkUnit key f w = w\<lparr>workUnits := (workUnits w)(key := map_option f (workUnits w key))\<rparr>"

definition onNode :: "('x world \<Rightarrow> 'x world) \<Rightarrow> 'x cstate \<Rightarrow> 'x cstate" where
  "onNode f s = s\<lparr>node := f (node s)\<rparr>"

definition goto :: "nat \<Rightarrow> pc \<Rightarrow> 'x cstate \<Rightarrow> 'x cstate" where
  "goto i l s = s\<lparr>tasks := (tasks s)(i := (tasks s i)\<lparr>pc := l\<rparr>)\<rparr>"

definition Unlock :: "bytes \<Rightarrow> 'x cstate \<Rightarrow> 'x cstate" where
  "Unlock key s = s\<lparr>processingLock := (processingLock s)(key := None)\<rparr>"

text \<open>
  One step of task \<open>i\<close>: the line at its program counter.  Taken as atomic are
  \<open>ComputeIfAbsent\<close> (the cache returns the entry of the key or creates it, section 4.2 of
  the specification), a call of a method of the work unit (each runs under a lock of the
  unit), and a call into the request queue, the tangle, the metrics, the peer manager or
  the event bus.  \<open>Lock\<close> (line 214) waits while another task holds the lock: the step
  changes nothing then.  Between line 214 and the \<open>Unlock\<close> of the branch taken the task
  holds the lock; the parse of line 251 runs after the \<open>Unlock\<close> of line 248.
\<close>

definition step :: "'x env \<Rightarrow> nat \<Rightarrow> 'x cstate \<Rightarrow> 'x cstate" where
  "step env i s =
     (let t = tasks s i; p = taskPeer t; data = taskData t; w = node s;
          wu = workUnitOf w data
      in case pc t of
           Idle \<Rightarrow> s
         | L202 \<Rightarrow>
             goto i L205
               (s\<lparr>node := snd (workUnitFor data w),
                  created := (if workUnits w data = None then created s @ [data]
                              else created s)\<rparr>)
         | L205 \<Rightarrow> goto i L214 (onNode (onWorkUnit data (addReceivedFrom p None)) s)
         | L214 \<Rightarrow>
             (if processingLock s data = None
              then goto i L217 (s\<lparr>processingLock := (processingLock s)(data := Some i)\<rparr>)
              else s)
         | L217 \<Rightarrow> goto i (if Is wu Hashing then L218 else L220) s
         | L218 \<Rightarrow> goto i Returned (Unlock data s)
         | L220 \<Rightarrow> goto i (if Is wu Invalid then L221 else L229) s
         | L221 \<Rightarrow> goto i L223 (Unlock data s)
         | L223 \<Rightarrow>
             goto i L226
               (onNode (\<lambda>w. w\<lparr>InvalidTransactions := InvalidTransactions w + 1\<rparr>) s)
         | L226 \<Rightarrow> goto i Returned (onNode (Remove p) s)
         | L229 \<Rightarrow> goto i (if Is wu Hashed then L230 else L247) s
         | L230 \<Rightarrow> goto i L233 (Unlock data s)
         | L233 \<Rightarrow>
             (case msg wu of
                None \<Rightarrow> goto i Panicked s
              | Some m \<Rightarrow>
                  (let (r, x1) = Received env (MessageID m) (ext w)
                   in s\<lparr>node := w\<lparr>ext := x1\<rparr>,
                        tasks := (tasks s)
                          (i := t\<lparr>pc := (if r \<noteq> None then L234 else L238),
                                  taskRequest := r\<rparr>)\<rparr>))
         | L234 \<Rightarrow>
             (case msg wu of
                None \<Rightarrow> goto i Panicked s
              | Some m \<Rightarrow>
                  goto i Returned
                    (onNode (Trigger env (MessageProcessed m (taskRequest t) (Some p))) s))
         | L238 \<Rightarrow>
             (case msg wu of
                None \<Rightarrow> goto i Panicked s
              | Some m \<Rightarrow>
                  goto i (if ContainsMessage env (MessageID m) (ext w) then L239 else Returned) s)
         | L239 \<Rightarrow>
             goto i L240 (onNode (\<lambda>w. w\<lparr>KnownTransactions := KnownTransactions w + 1\<rparr>) s)
         | L240 \<Rightarrow>
             goto i Returned
               (onNode (\<lambda>w. w\<lparr>peerKnownTransactions :=
                                (peerKnownTransactions w)(p := peerKnownTransactions w p + 1)\<rparr>) s)
         | L247 \<Rightarrow>
             goto i L248
               (s\<lparr>node := onWorkUnit data (UpdateState Hashing) w,
                  hashers := hashers s @ [(i, data)]\<rparr>)
         | L248 \<Rightarrow> goto i L251 (Unlock data s)
         | L251 \<Rightarrow>
             (case MessageFromBytes env (receivedMsgBytes wu) DeSeriModePerformValidation of
                Inl err \<Rightarrow> goto i L253 (s\<lparr>parsed := parsed s @ [(i, receivedMsgBytes wu)]\<rparr>)
              | Inr m \<Rightarrow>
                  s\<lparr>parsed := parsed s @ [(i, receivedMsgBytes wu)],
                    tasks := (tasks s)(i := t\<lparr>pc := L259, taskMsg := Some m\<rparr>)\<rparr>)
         | L253 \<Rightarrow> goto i L254 (onNode (onWorkUnit data (UpdateState Invalid)) s)
         | L254 \<Rightarrow> goto i Returned (onNode (punish wu) s)
         | L259 \<Rightarrow>
             (case taskMsg t of
                None \<Rightarrow> goto i Panicked s
              | Some m \<Rightarrow>
                  (let (r, x1) = Received env (MessageID m) (ext w)
                   in s\<lparr>node := w\<lparr>ext := x1\<rparr>,
                        tasks := (tasks s)(i := t\<lparr>pc := L272, taskRequest := r\<rparr>)\<rparr>))
         | L272 \<Rightarrow>
             (case taskMsg t of
                None \<Rightarrow> goto i Panicked s
              | Some m \<Rightarrow>
                  goto i L276
                    (onNode (onWorkUnit data
                       (\<lambda>wu. wu\<lparr>receivedMsgID := Some (MessageID m), msg := Some m\<rparr>)) s))
         | L276 \<Rightarrow>
             goto i (if receivedTxHash wu \<in> invalidMilestoneHashes env then L278 else L283) s
         | L278 \<Rightarrow> goto i L279 (onNode (onWorkUnit data (UpdateState Invalid)) s)
         | L279 \<Rightarrow> goto i Returned (onNode (punish wu) s)
         | L283 \<Rightarrow> goto i L286 (onNode (onWorkUnit data (UpdateState Hashed)) s)
         | L286 \<Rightarrow>
             (case taskMsg t of
                None \<Rightarrow> goto i Panicked s
              | Some m \<Rightarrow>
                  s\<lparr>tasks := (tasks s)
                       (i := t\<lparr>pc := L288,
                               taskContainsTx := ContainsMessage env (MessageID m) (ext w)\<rparr>)\<rparr>)
         | L288 \<Rightarrow>
             (case taskMsg t of
                None \<Rightarrow> goto i Panicked s
              | Some m \<Rightarrow>
                  goto i L291
                    (onNode (Trigger env (MessageProcessed m (taskRequest t) (Some p))) s))
         | L291 \<Rightarrow> goto i L295 (onNode (increaseKnownTxCount wu p) s)
         | L295 \<Rightarrow>
             goto i Returned
               (if taskRequest t = None \<and> \<not> taskContainsTx t
                then onNode (Trigger env (BroadcastMessage (broadcast wu))) s else s)
         | Returned \<Rightarrow> s
         | Panicked \<Rightarrow> s)"

text \<open>
  A schedule is the list of the tasks that take the next step, one after the other; any
  list is a schedule.  At the start the cache is empty, nobody holds a lock, and the
  submitted payloads wait at line 202.
\<close>

fun run :: "'x env \<Rightarrow> nat list \<Rightarrow> 'x cstate \<Rightarrow> 'x cstate" where
  "run env [] s = s"
| "run env (i # schedule) s = run env schedule (step env i s)"

definition submitted :: "(peer_id \<times> bytes) list \<Rightarrow> nat \<Rightarrow> task" where
  "submitted subs i =
     (if i < length subs
      then \<lparr>pc = L202, taskPeer = fst (subs ! i), taskData = snd (subs ! i),
            taskMsg = None, taskRequest = None, taskContainsTx = False\<rparr>
      else \<lparr>pc = Idle, taskPeer = [], taskData = [], taskMsg = None, taskRequest = None,
            taskContainsTx = False\<rparr>)"

definition initial :: "(peer_id \<times> bytes) list \<Rightarrow> 'x world \<Rightarrow> 'x cstate" where
  "initial subs w =
     \<lparr>node = w\<lparr>workUnits := Map.empty\<rparr>, processingLock = (\<lambda>key. None),
      tasks = submitted subs, created = [], hashers = [], parsed = []\<rparr>"


text \<open>
  Scenario S1 on the concrete node: peers \<open>A\<close> and \<open>B\<close> submit the same payload; task 0
  reaches \<open>Hashing\<close>, task 1 arrives, waits for the lock, finds the unit \<open>Hashing\<close> and
  returns, and task 0 finishes.
\<close>

definition exampleSubs :: "(peer_id \<times> bytes) list" where
  "exampleSubs = [(''A'', [3, 1]), (''B'', [3, 1])]"


text \<open>The schedule on which task \<open>i\<close> runs alone, long enough for every path.\<close>

definition alone :: "nat \<Rightarrow> nat list" where
  "alone i = [i, i, i, i, i, i, i, i, i, i, i, i, i, i, i, i, i]"

subsection \<open>What the protocol depends on\<close>


fun hashingRegion :: "pc \<Rightarrow> bool" where
  "hashingRegion L248 = True"
| "hashingRegion L251 = True"
| "hashingRegion L253 = True"
| "hashingRegion L259 = True"
| "hashingRegion L272 = True"
| "hashingRegion L276 = True"
| "hashingRegion L278 = True"
| "hashingRegion L283 = True"
| "hashingRegion l = False"


fun postParse :: "pc \<Rightarrow> bool" where
  "postParse L253 = True"
| "postParse L259 = True"
| "postParse L272 = True"
| "postParse L276 = True"
| "postParse L278 = True"
| "postParse L283 = True"
| "postParse l = False"


text \<open>
  The view of a state: the program counters, the keys, whether the local \<open>msg\<close> is set,
  the state of the work unit of each key, which keys the cache holds, the lock holders
  and the three logs.
\<close>

record view =
  apc :: "nat \<Rightarrow> pc"
  akey :: "nat \<Rightarrow> bytes"
  amsg :: "nat \<Rightarrow> bool"
  ast :: "bytes \<Rightarrow> WorkUnitState"
  apresent :: "bytes \<Rightarrow> bool"
  alock :: "bytes \<Rightarrow> nat option"
  acreated :: "bytes list"
  ahashers :: "(nat \<times> bytes) list"
  aparsed :: "(nat \<times> bytes) list"


text \<open>
  The effect of a step on the view, given the line \<open>l'\<close> the task moves to and whether
  its local \<open>msg\<close> is set afterwards; and the conditions every step of the program meets.
\<close>

definition astep :: "nat \<Rightarrow> pc \<Rightarrow> bool \<Rightarrow> view \<Rightarrow> view" where
  "astep i l' m a =
     (let l = apc a i; key = akey a i in
      a\<lparr>apc := (apc a)(i := l'),
        amsg := (amsg a)(i := m),
        ast := (if l = L247 then (ast a)(key := Hashing)
                else if l \<in> {L253, L278} then (ast a)(key := Invalid)
                else if l = L283 then (ast a)(key := Hashed)
                else ast a),
        apresent := (if l = L202 then (apresent a)(key := True) else apresent a),
        alock := (if l = L214 \<and> l' = L217 then (alock a)(key := Some i)
                  else if l \<in> {L218, L221, L230, L248} then (alock a)(key := None)
                  else alock a),
        acreated := (if l = L202 \<and> \<not> apresent a key then acreated a @ [key] else acreated a),
        ahashers := (if l = L247 then ahashers a @ [(i, key)] else ahashers a),
        aparsed := (if l = L251 then aparsed a @ [(i, key)] else aparsed a)\<rparr>)"








section \<open>Properties\<close>

subsection \<open>Effects of the helpers\<close>

lemma Trigger_fired [simp]: "fired (Trigger env ev w) = fired w @ [ev]"
  by (simp add: Trigger_def)

lemma enqueueAll_eq:
  "enqueueAll env p ms w =
     w\<lparr>enqueued := enqueued w @ map (\<lambda>m. (p, fst (NewTransactionMessage env (RawBytes m)))) ms\<rparr>"
  by (induction ms arbitrary: w) (simp_all add: EnqueueForSending_def)

lemma punishAll_effect:
  "punishAll ps w =
     w\<lparr>InvalidTransactions := InvalidTransactions w + length ps, removed := removed w @ ps\<rparr>"
  by (induction ps arbitrary: w) (simp_all add: Remove_def)

lemma increaseKnownAll_frame [simp]:
  "fired (increaseKnownAll q ps w) = fired w"
  "ext (increaseKnownAll q ps w) = ext w"
  by (induction ps arbitrary: w) simp_all

lemma processWorkUnit_terminal:
  assumes "state wu = Hashed \<or> state wu = Invalid" and "state wu = Hashed \<longrightarrow> msg wu \<noteq> None"
  shows "\<exists>w'. processWorkUnit env wu p w = Inr (wu, w')"
  using assms
  by (auto simp add: processWorkUnit_def Is_def Let_def split: prod.splits option.splits)

text \<open>
  The processor sets \<open>msg\<close> before it sets \<open>Hashed\<close>: a work unit that is \<open>Hashed\<close> only with a
  message stays so, and \<open>processWorkUnit\<close> does not panic on it.  A new work unit is one.
\<close>

lemma processWorkUnit_no_panic:
  assumes "state wu = Hashed \<longrightarrow> msg wu \<noteq> None"
  shows "\<exists>wu' w'. processWorkUnit env wu p w = Inr (wu', w') \<and>
     (state wu' = Hashed \<longrightarrow> msg wu' \<noteq> None)"
  using assms
  by (auto simp add: processWorkUnit_def Is_def UpdateState_def Let_def
      split: option.splits sum.splits prod.splits)

subsection \<open>Transaction payloads\<close>

text \<open>
  Claim C1.  A work unit in state \<open>Unhashed\<close> whose payload fails to parse: the call returns
  with the work unit \<open>Invalid\<close>, every peer recorded in \<open>receivedFrom\<close> is removed through the
  peer manager (in the order recorded), the invalid-transactions counter goes up by one for
  each of them (so it goes up whenever a sender is recorded, as it is after
  \<open>processTransaction\<close> has added the submitting peer), and no event is fired.
\<close>

theorem processWorkUnit_parse_failure:
  assumes "state wu = Unhashed"
    and "MessageFromBytes env (receivedMsgBytes wu) DeSeriModePerformValidation = Inl err"
  shows "\<exists>wu' w'. processWorkUnit env wu p w = Inr (wu', w') \<and>
     state wu' = Invalid \<and>
     removed w' = removed w @ map fst (receivedFrom wu) \<and>
     InvalidTransactions w' = InvalidTransactions w + length (receivedFrom wu) \<and>
     (receivedFrom wu \<noteq> [] \<longrightarrow> InvalidTransactions w < InvalidTransactions w') \<and>
     fired w' = fired w"
  using assms
  by (simp add: processWorkUnit_def Is_def UpdateState_def punish_def punishAll_effect)

text \<open>Scenario S2: peer \<open>A\<close> submits bytes that do not parse.\<close>

theorem processWorkUnit_parse_failure_witness:
  "\<exists>wu' w'. processWorkUnit exampleEnv exampleInvalid ''A'' exampleWorld = Inr (wu', w') \<and>
     state wu' = Invalid \<and> removed w' = [''A''] \<and> InvalidTransactions w' = 1 \<and> fired w' = []"
proof -
  have st: "state exampleInvalid = Unhashed"
    by (simp add: exampleInvalid_def addReceivedFrom_def newWorkUnit_def)
  have parse: "MessageFromBytes exampleEnv (receivedMsgBytes exampleInvalid)
      DeSeriModePerformValidation = Inl (GoError ''malformed'')"
    by (simp add: exampleInvalid_def addReceivedFrom_def newWorkUnit_def exampleEnv_def)
  have senders: "receivedFrom exampleInvalid = [(''A'', None)]"
    by (simp add: exampleInvalid_def addReceivedFrom_def newWorkUnit_def)
  have start: "removed exampleWorld = []" "InvalidTransactions exampleWorld = 0"
      "fired exampleWorld = []"
    by (simp_all add: exampleWorld_def)
  show ?thesis
    using processWorkUnit_parse_failure [OF st parse, of "''A''" exampleWorld] senders start
    by auto
qed

text \<open>
  Claim C3.  A call on a work unit that is already \<open>Hashed\<close> (its message is set, as it is
  on every work unit that reached \<open>Hashed\<close>): with \<open>request\<close> the answer of the request
  queue, the call returns the work unit as it was; the events fired are exactly
  \<open>MessageProcessed(msg, request, peer)\<close> when the queue returned a request and none when
  it did not, so \<open>BroadcastMessage\<close> is never fired; the server's and the calling peer's
  known-transactions counters go up by one exactly when no request matched and the tangle
  contains the message.
\<close>

theorem processWorkUnit_Hashed:
  assumes "state wu = Hashed" and "msg wu = Some m"
    and "Received env (MessageID m) (ext w) = (request, x1)"
  shows "\<exists>w'. processWorkUnit env wu p w = Inr (wu, w') \<and>
     fired w' = fired w @
       (case request of Some r \<Rightarrow> [MessageProcessed m (Some r) (Some p)] | None \<Rightarrow> []) \<and>
     KnownTransactions w' =
       KnownTransactions w +
         (if request = None \<and> ContainsMessage env (MessageID m) x1 then 1 else 0) \<and>
     peerKnownTransactions w' =
       (peerKnownTransactions w)
         (p := peerKnownTransactions w p +
               (if request = None \<and> ContainsMessage env (MessageID m) x1 then 1 else 0))"
  using assms
  by (cases request) (auto simp add: processWorkUnit_def Is_def Trigger_def)

text \<open>A hashed work unit whose message is still requested, delivered again by peer \<open>B\<close>.\<close>

theorem processWorkUnit_Hashed_witness:
  "\<exists>w'. processWorkUnit exampleEnv (exampleHashed 9) ''B'' exampleWorld
       = Inr (exampleHashed 9, w') \<and>
     fired w' = [MessageProcessed \<lparr>MessageID = [9], RawBytes = [9, 1]\<rparr> (Some 1) (Some ''B'')] \<and>
     KnownTransactions w' = 0 \<and> peerKnownTransactions w' ''B'' = 0"
proof -
  let ?m = "\<lparr>MessageID = [9], RawBytes = [9, 1]\<rparr>"
  have st: "state (exampleHashed 9) = Hashed" and m: "msg (exampleHashed 9) = Some ?m"
    by (simp_all add: exampleHashed_def)
  have rq: "Received exampleEnv (MessageID ?m) (ext exampleWorld)
      = (Some 1, exampleNode\<lparr>outstanding := []\<rparr>)"
    by (simp add: exampleEnv_def exampleWorld_def exampleNode_def)
  have start: "fired exampleWorld = []" "KnownTransactions exampleWorld = 0"
      "peerKnownTransactions exampleWorld = (\<lambda>p. 0)"
    by (simp_all add: exampleWorld_def)
  show ?thesis
    using processWorkUnit_Hashed [OF st m rq, of "''B''"] start
    by auto
qed

text \<open>
  Claim C4.  Once a work unit is \<open>Hashed\<close> or \<open>Invalid\<close>, any sequence of calls of
  \<open>processWorkUnit\<close> on it, for any peers and with any activity of the rest of the node
  between the calls, returns the work unit unchanged: no call updates its state.
\<close>

theorem processWorkUnits_terminal:
  assumes "state wu = Hashed \<or> state wu = Invalid" and "state wu = Hashed \<longrightarrow> msg wu \<noteq> None"
  shows "\<exists>w'. processWorkUnits env calls wu w = Inr (wu, w')"
  using assms
proof (induction calls arbitrary: w)
  case Nil
  then show ?case by simp
next
  case (Cons c calls)
  obtain p others where c: "c = (p, others)" by (cases c)
  from processWorkUnit_terminal [OF Cons.prems]
  obtain w1 where "processWorkUnit env wu p (others w) = Inr (wu, w1)" by blast
  moreover from Cons.IH [OF Cons.prems]
  obtain w2 where "processWorkUnits env calls wu w1 = Inr (wu, w2)" by blast
  ultimately show ?case by (simp add: c)
qed

theorem processWorkUnits_terminal_witness:
  "\<exists>w'. processWorkUnits exampleEnv [(''A'', id), (''B'', id)] (exampleHashed 9) exampleWorld
     = Inr (exampleHashed 9, w')"
proof -
  have "state (exampleHashed 9) = Hashed \<or> state (exampleHashed 9) = Invalid"
    and "state (exampleHashed 9) = Hashed \<longrightarrow> msg (exampleHashed 9) \<noteq> None"
    by (simp_all add: exampleHashed_def)
  then show ?thesis
    by (rule processWorkUnits_terminal)
qed

text \<open>
  Claim C8.  The first call on an \<open>Unhashed\<close> work unit whose payload parses and is not
  block-listed.  With \<open>request\<close> the answer of the request queue and \<open>containsTx\<close> the
  answer of the tangle in the state \<open>x1\<close> that the handlers have not yet seen, the events
  fired are \<open>MessageProcessed\<close> first and then \<open>BroadcastMessage\<close>, the latter exactly when
  no request matched and \<open>containsTx\<close> is false; the handlers run on \<open>x1\<close> in that order.
\<close>

theorem processWorkUnit_first_hash:
  assumes "state wu = Unhashed"
    and "MessageFromBytes env (receivedMsgBytes wu) DeSeriModePerformValidation = Inr m"
    and "receivedTxHash wu \<notin> invalidMilestoneHashes env"
    and "Received env (MessageID m) (ext w) = (request, x1)"
    and "containsTx = ContainsMessage env (MessageID m) x1"
  shows "\<exists>wu' w'. processWorkUnit env wu p w = Inr (wu', w') \<and>
     state wu' = Hashed \<and>
     fired w' = fired w @ MessageProcessed m request (Some p) #
       (if request = None \<and> \<not> containsTx then [BroadcastMessage (broadcast wu')] else []) \<and>
     ext w' =
       (if request = None \<and> \<not> containsTx then onBroadcastMessage env (broadcast wu') else id)
         (onMessageProcessed env m request (Some p) x1)"
  using assms
  by (simp add: processWorkUnit_def Is_def UpdateState_def increaseKnownTxCount_def Let_def
      Trigger_def)

text \<open>
  Peer \<open>A\<close> delivers a new payload.  The handler of \<open>MessageProcessed\<close> stores the message, so
  the tangle contains it when \<open>BroadcastMessage\<close> is decided; the broadcast still happens,
  because the tangle was asked before the event.
\<close>

theorem processWorkUnit_first_hash_witness:
  "\<exists>wu' w'. processWorkUnit exampleEnv exampleFresh ''A'' exampleWorld = Inr (wu', w') \<and>
     state wu' = Hashed \<and>
     fired w' = [MessageProcessed \<lparr>MessageID = [3], RawBytes = [3, 1]\<rparr> None (Some ''A''),
                 BroadcastMessage (broadcast wu')] \<and>
     ContainsMessage exampleEnv [3] (ext w') \<and>
     \<not> ContainsMessage exampleEnv [3] (ext exampleWorld)"
proof -
  let ?m = "\<lparr>MessageID = [3], RawBytes = [3, 1]\<rparr>"
  have st: "state exampleFresh = Unhashed"
    by (simp add: exampleFresh_def addReceivedFrom_def newWorkUnit_def)
  have parse: "MessageFromBytes exampleEnv (receivedMsgBytes exampleFresh)
      DeSeriModePerformValidation = Inr ?m"
    by (simp add: exampleFresh_def addReceivedFrom_def newWorkUnit_def exampleEnv_def)
  have blk: "receivedTxHash exampleFresh \<notin> invalidMilestoneHashes exampleEnv"
    by (simp add: exampleEnv_def)
  have rq: "Received exampleEnv (MessageID ?m) (ext exampleWorld) = (None, exampleNode)"
    by (simp add: exampleEnv_def exampleWorld_def exampleNode_def)
  have "length [3 :: byte] \<noteq> length (replicate 49 (7 :: byte))"
    by simp
  then have ne: "[3 :: byte] \<noteq> replicate 49 7"
    by fastforce
  have probe: "False = ContainsMessage exampleEnv (MessageID ?m) exampleNode"
    using ne by (simp add: exampleEnv_def exampleNode_def)
  have handlers: "\<And>b. ContainsMessage exampleEnv [3]
      (onBroadcastMessage exampleEnv b
         (onMessageProcessed exampleEnv ?m None (Some ''A'') exampleNode))"
    by (simp add: exampleEnv_def)
  have start: "fired exampleWorld = []" "ext exampleWorld = exampleNode"
    by (simp_all add: exampleWorld_def)
  show ?thesis
    using processWorkUnit_first_hash [OF st parse blk rq probe, of "''A''"] start handlers probe
    by auto
qed

subsection \<open>Local injection\<close>

text \<open>
  Claim C5.  \<open>SerializeAndEmit\<close> returns the error of the serialization and leaves the node
  as it was (no event) when the serialization fails; when it succeeds it returns nil and
  has fired \<open>MessageProcessed(msg, nil, nil)\<close> and then \<open>BroadcastMessage\<close>, nothing else.
\<close>

theorem SerializeAndEmit_result:
  "(\<forall>err. Serialize env m mode = Inl err \<longrightarrow>
      SerializeAndEmit env m mode w = (Some err, w)) \<and>
   (\<forall>msgData. Serialize env m mode = Inr msgData \<longrightarrow>
      fst (SerializeAndEmit env m mode w) = None \<and>
      (\<exists>b. fired (snd (SerializeAndEmit env m mode w)) =
         fired w @ [MessageProcessed m None None, BroadcastMessage b]))"
  by (simp add: SerializeAndEmit_def)

theorem SerializeAndEmit_result_witness:
  "SerializeAndEmit exampleEnv \<lparr>MessageID = [1], RawBytes = []\<rparr> DeSeriModePerformValidation
       exampleWorld
     = (Some (GoError ''nothing to serialize''), exampleWorld) \<and>
   fst (SerializeAndEmit exampleEnv \<lparr>MessageID = [1], RawBytes = [1, 2]\<rparr>
          DeSeriModePerformValidation exampleWorld) = None \<and>
   (\<exists>b. fired (snd (SerializeAndEmit exampleEnv \<lparr>MessageID = [1], RawBytes = [1, 2]\<rparr>
                     DeSeriModePerformValidation exampleWorld)) =
      fired exampleWorld @
        [MessageProcessed \<lparr>MessageID = [1], RawBytes = [1, 2]\<rparr> None None, BroadcastMessage b])"
proof -
  have bad: "Serialize exampleEnv \<lparr>MessageID = [1], RawBytes = []\<rparr> DeSeriModePerformValidation
      = Inl (GoError ''nothing to serialize'')"
    by (simp add: exampleEnv_def)
  have good: "Serialize exampleEnv \<lparr>MessageID = [1], RawBytes = [1, 2]\<rparr>
      DeSeriModePerformValidation = Inr [1, 2]"
    by (simp add: exampleEnv_def)
  show ?thesis
    using bad good
      SerializeAndEmit_result [of exampleEnv "\<lparr>MessageID = [1], RawBytes = []\<rparr>"
        DeSeriModePerformValidation exampleWorld]
      SerializeAndEmit_result [of exampleEnv "\<lparr>MessageID = [1], RawBytes = [1, 2]\<rparr>"
        DeSeriModePerformValidation exampleWorld]
    by simp
qed

text \<open>
  Claim C10.  When the serialization succeeds, the one broadcast that \<open>SerializeAndEmit\<close>
  adds, and that the handlers of \<open>BroadcastMessage\<close> receive, carries the serialized bytes
  and an empty set of excluded peers: no peer is skipped.
\<close>

theorem SerializeAndEmit_broadcast_value:
  "Serialize env m mode = Inr msgData \<Longrightarrow>
     [b. BroadcastMessage b \<leftarrow> fired (snd (SerializeAndEmit env m mode w))] =
       [b. BroadcastMessage b \<leftarrow> fired w] @ [\<lparr>MsgData = msgData, ExcludePeers = {}\<rparr>] \<and>
     ext (snd (SerializeAndEmit env m mode w)) =
       onBroadcastMessage env \<lparr>MsgData = msgData, ExcludePeers = {}\<rparr>
         (onMessageProcessed env m None None (ext w))"
  by (simp add: SerializeAndEmit_def Trigger_def)

theorem SerializeAndEmit_broadcast_value_witness:
  "[b. BroadcastMessage b \<leftarrow> fired (snd (SerializeAndEmit exampleEnv
        \<lparr>MessageID = [1], RawBytes = [1, 2]\<rparr> DeSeriModePerformValidation exampleWorld))] =
     [\<lparr>MsgData = [1, 2], ExcludePeers = {}\<rparr>]"
proof -
  have good: "Serialize exampleEnv \<lparr>MessageID = [1], RawBytes = [1, 2]\<rparr>
      DeSeriModePerformValidation = Inr [1, 2]"
    by (simp add: exampleEnv_def)
  have start: "fired exampleWorld = []"
    by (simp add: exampleWorld_def)
  show ?thesis
    using SerializeAndEmit_broadcast_value [OF good, of exampleWorld] start
    by simp
qed

subsection \<open>Requests\<close>

text \<open>
  Claim C6.  \<open>processMessageRequest\<close> leaves the node as it was (no reply, no counter, no
  removal) when the input is not 49 bytes long, and when it is 49 bytes long but the
  tangle has no such message; when the tangle has it, the only change is one message
  enqueued on the requesting peer, the one \<open>NewTransactionMessage\<close> builds from the stored
  raw bytes.
\<close>

theorem processMessageRequest_cases:
  "(length data \<noteq> 49 \<longrightarrow> processMessageRequest env p data w = w) \<and>
   (length data = 49 \<and> GetCachedMessageOrNil env data (ext w) = None \<longrightarrow>
      processMessageRequest env p data w = w) \<and>
   (\<forall>cachedMsg. length data = 49 \<and> GetCachedMessageOrNil env data (ext w) = Some cachedMsg \<longrightarrow>
      processMessageRequest env p data w =
        w\<lparr>enqueued := enqueued w @ [(p, fst (NewTransactionMessage env (RawBytes cachedMsg)))]\<rparr>)"
  by (simp add: processMessageRequest_def EnqueueForSending_def)

theorem processMessageRequest_cases_witness:
  "processMessageRequest exampleEnv ''A'' [7, 7] exampleWorld = exampleWorld \<and>
   processMessageRequest exampleEnv ''A'' (replicate 49 8) exampleWorld = exampleWorld \<and>
   processMessageRequest exampleEnv ''A'' (replicate 49 7) exampleWorld =
     exampleWorld\<lparr>enqueued := [(''A'', [2, 7, 7])]\<rparr>"
proof -
  have miss: "GetCachedMessageOrNil exampleEnv (replicate 49 8) (ext exampleWorld) = None"
    by (simp add: exampleEnv_def exampleWorld_def exampleNode_def)
  have hit: "GetCachedMessageOrNil exampleEnv (replicate 49 7) (ext exampleWorld) =
      Some \<lparr>MessageID = replicate 49 7, RawBytes = [7, 7]\<rparr>"
    by (simp add: exampleEnv_def exampleWorld_def exampleNode_def)
  have codec: "NewTransactionMessage exampleEnv [7, 7] = ([2, 7, 7], None)"
    by (simp add: exampleEnv_def)
  have q: "enqueued exampleWorld = []"
    by (simp add: exampleWorld_def)
  show ?thesis
    using miss hit codec q
      processMessageRequest_cases [of "[7, 7]" exampleEnv "''A''" exampleWorld]
      processMessageRequest_cases [of "replicate 49 8" exampleEnv "''A''" exampleWorld]
      processMessageRequest_cases [of "replicate 49 7" exampleEnv "''A''" exampleWorld]
    by simp
qed

text \<open>
  Claim C7.  \<open>processMilestoneRequest\<close>: when the index cannot be extracted, the
  invalid-requests counter goes up by one and the requesting peer is removed, nothing
  else.  Otherwise the index looked up is the latest milestone index when the request
  holds the sentinel \<open>LatestMilestoneRequestIndex\<close> and the requested index when it does
  not; a milestone the tangle does not have leaves the node as it was; for one it has,
  each of its messages is enqueued on the requesting peer, in order, as the message
  \<open>NewTransactionMessage\<close> builds from its raw bytes.
\<close>

theorem processMilestoneRequest_cases:
  "(\<forall>err. ExtractRequestedMilestoneIndex env data = Inl err \<longrightarrow>
      processMilestoneRequest env p data w =
        w\<lparr>InvalidRequests := InvalidRequests w + 1, removed := removed w @ [p]\<rparr>) \<and>
   (\<forall>requested msIndex.
      ExtractRequestedMilestoneIndex env data = Inr requested \<and>
      msIndex = (if requested = LatestMilestoneRequestIndex env
                 then GetLatestMilestoneIndex env (ext w) else requested) \<longrightarrow>
      (GetMilestoneOrNil env msIndex (ext w) = None \<longrightarrow>
         processMilestoneRequest env p data w = w) \<and>
      (\<forall>ms. GetMilestoneOrNil env msIndex (ext w) = Some ms \<longrightarrow>
         processMilestoneRequest env p data w =
           w\<lparr>enqueued := enqueued w @
                map (\<lambda>m. (p, fst (NewTransactionMessage env (RawBytes m))))
                  (Transactions ms)\<rparr>))"
  by (simp add: processMilestoneRequest_def Remove_def enqueueAll_eq Let_def)

text \<open>Scenarios S6 (malformed request) and S5 (the sentinel), and a milestone not held.\<close>

theorem processMilestoneRequest_cases_witness:
  "processMilestoneRequest exampleEnv ''A'' [1, 2, 3] exampleWorld =
     exampleWorld\<lparr>InvalidRequests := 1, removed := [''A'']\<rparr> \<and>
   processMilestoneRequest exampleEnv ''A'' [6, 0, 0, 0] exampleWorld = exampleWorld \<and>
   processMilestoneRequest exampleEnv ''A'' [0, 0, 0, 0] exampleWorld =
     exampleWorld\<lparr>enqueued := [(''A'', [2, 1, 1]), (''A'', [2, 2, 2])]\<rparr>"
proof -
  have bad: "ExtractRequestedMilestoneIndex exampleEnv [1, 2, 3]
      = Inl (GoError ''not a milestone index'')"
    by (simp add: exampleEnv_def)
  have six: "ExtractRequestedMilestoneIndex exampleEnv [6, 0, 0, 0] = Inr 6"
    by (simp add: exampleEnv_def)
  have zero: "ExtractRequestedMilestoneIndex exampleEnv [0, 0, 0, 0] = Inr 0"
    by (simp add: exampleEnv_def)
  have sentinel: "LatestMilestoneRequestIndex exampleEnv = 0"
    by (simp add: exampleEnv_def)
  have latest: "GetLatestMilestoneIndex exampleEnv (ext exampleWorld) = 5"
    by (simp add: exampleEnv_def exampleWorld_def exampleNode_def)
  have miss: "GetMilestoneOrNil exampleEnv 6 (ext exampleWorld) = None"
    by (simp add: exampleEnv_def exampleWorld_def exampleNode_def)
  have hit: "GetMilestoneOrNil exampleEnv 5 (ext exampleWorld) =
      Some \<lparr>Transactions = [\<lparr>MessageID = [1], RawBytes = [1, 1]\<rparr>,
                             \<lparr>MessageID = [2], RawBytes = [2, 2]\<rparr>]\<rparr>"
    by (simp add: exampleEnv_def exampleWorld_def exampleNode_def)
  have codec: "\<And>bs. NewTransactionMessage exampleEnv bs = (2 # bs, None)"
    by (simp add: exampleEnv_def)
  have start: "InvalidRequests exampleWorld = 0" "removed exampleWorld = []"
      "enqueued exampleWorld = []"
    by (simp_all add: exampleWorld_def)
  show ?thesis
    using bad six zero sentinel latest miss hit codec start
      processMilestoneRequest_cases [of exampleEnv "[1, 2, 3]" "''A''" exampleWorld]
      processMilestoneRequest_cases [of exampleEnv "[6, 0, 0, 0]" "''A''" exampleWorld]
      processMilestoneRequest_cases [of exampleEnv "[0, 0, 0, 0]" "''A''" exampleWorld]
    by simp
qed

subsection \<open>Dispatch\<close>

text \<open>
  Claim C9.  A task whose message type is none of the three the switch names does
  nothing: the state of the node after the task is the state before it (no counter, no
  reply, no event, no removal, no work unit).
\<close>

theorem workerTask_other_kind:
  "msgType \<noteq> MessageTypeTransaction env \<Longrightarrow>
   msgType \<noteq> MessageTypeTransactionRequest env \<Longrightarrow>
   msgType \<noteq> MessageTypeMilestoneRequest env \<Longrightarrow>
   workerTask env p msgType data w = Inr w"
  by (simp add: workerTask_def)

theorem workerTask_other_kind_witness:
  "workerTask exampleEnv ''A'' 4 [1, 2, 3] exampleWorld = Inr exampleWorld"
proof -
  have "(4 :: message_type) \<noteq> MessageTypeTransaction exampleEnv"
       "(4 :: message_type) \<noteq> MessageTypeTransactionRequest exampleEnv"
       "(4 :: message_type) \<noteq> MessageTypeMilestoneRequest exampleEnv"
    by (simp_all add: exampleEnv_def)
  then show ?thesis
    by (rule workerTask_other_kind)
qed

subsection \<open>Concurrent submissions\<close>



lemma astep_simps [simp]:
  "apc (astep i l' m a) = (apc a)(i := l')"
  "akey (astep i l' m a) = akey a"
  "amsg (astep i l' m a) = (amsg a)(i := m)"
  by (simp_all add: astep_def Let_def)










lemma postParse_region: "postParse l \<Longrightarrow> hashingRegion l"
  by (cases l) simp_all

















lemma workUnitOf_same: "workUnits w' = workUnits w \<Longrightarrow> workUnitOf w' = workUnitOf w"
  by (simp add: workUnitOf_def fun_eq_iff)

lemma increaseKnownAll_workUnits [simp]:
  "workUnits (increaseKnownAll q ps w) = workUnits w"
  by (induction ps arbitrary: w) simp_all

lemma workUnits_frames [simp]:
  "workUnits (Trigger env ev w) = workUnits w"
  "workUnits (Remove p w) = workUnits w"
  "workUnits (punish wu w) = workUnits w"
  "workUnits (increaseKnownTxCount wu p w) = workUnits w"
  by (simp_all add: Trigger_def Remove_def punish_def punishAll_effect increaseKnownTxCount_def)

lemma workUnitOf_frames [simp]:
  "workUnitOf (Trigger env ev w) = workUnitOf w"
  "workUnitOf (Remove p w) = workUnitOf w"
  "workUnitOf (punish wu w) = workUnitOf w"
  "workUnitOf (increaseKnownTxCount wu p w) = workUnitOf w"
  "workUnitOf (w\<lparr>ext := x\<rparr>) = workUnitOf w"
  "workUnitOf (w\<lparr>InvalidTransactions := n\<rparr>) = workUnitOf w"
  "workUnitOf (w\<lparr>KnownTransactions := n\<rparr>) = workUnitOf w"
  "workUnitOf (w\<lparr>peerKnownTransactions := f\<rparr>) = workUnitOf w"
  by (simp_all add: workUnitOf_def fun_eq_iff)

lemma workUnitOf_workUnitFor [simp]:
  "workUnitOf (snd (workUnitFor key w)) = workUnitOf w"
  by (auto simp add: workUnitOf_def workUnitFor_def fun_eq_iff split: option.splits)

lemma dom_workUnitFor [simp]:
  "dom (workUnits (snd (workUnitFor key w))) = insert key (dom (workUnits w))"
  by (auto simp add: workUnitFor_def split: option.splits)

lemma dom_onWorkUnit [simp]:
  "dom (workUnits (onWorkUnit key f w)) = dom (workUnits w)"
  by (auto simp add: onWorkUnit_def split: if_splits)


lemma dom_frames [simp]:
  "dom (workUnits (w\<lparr>ext := x\<rparr>)) = dom (workUnits w)"
  by simp















text \<open>The example schedule, evaluated.\<close>

lemmas ev = initial_def submitted_def step_def
      Let_def goto_def Unlock_def onNode_def onWorkUnit_def workUnitOf_def workUnitFor_def
      newWorkUnit_def addReceivedFrom_def Is_def UpdateState_def exampleEnv_def
      exampleWorld_def exampleNode_def Trigger_def increaseKnownTxCount_def broadcast_def
      exampleSubs_def





subsection \<open>One task alone\<close>

text \<open>
  A task that runs alone from line 202, the lock of its key free, leaves the node in the
  state \<open>processTransaction\<close> computes, and panics exactly when \<open>processTransaction\<close> does:
  the step by step reading of the code and the function agree.
\<close>

lemma increaseKnownAll_through:
  assumes "\<And>w f. g (w\<lparr>peerKnownTransactions := f\<rparr>) = (g w)\<lparr>peerKnownTransactions := f\<rparr>"
    and "\<And>w. peerKnownTransactions (g w) = peerKnownTransactions w"
  shows "increaseKnownAll q ps (g w) = g (increaseKnownAll q ps w)"
  by (induction ps arbitrary: w) (simp_all add: assms(2) assms(1) [symmetric])

lemma increaseKnownAll_commute:
  "increaseKnownAll q ps (w\<lparr>workUnits := m\<rparr>) = (increaseKnownAll q ps w)\<lparr>workUnits := m\<rparr>"
  "increaseKnownAll q ps (w\<lparr>ext := x\<rparr>) = (increaseKnownAll q ps w)\<lparr>ext := x\<rparr>"
  "increaseKnownAll q ps (w\<lparr>fired := f\<rparr>) = (increaseKnownAll q ps w)\<lparr>fired := f\<rparr>"
  using increaseKnownAll_through [of "\<lambda>w. w\<lparr>workUnits := m\<rparr>" q ps w]
    increaseKnownAll_through [of "\<lambda>w. w\<lparr>ext := x\<rparr>" q ps w]
    increaseKnownAll_through [of "\<lambda>w. w\<lparr>fired := f\<rparr>" q ps w]
  by simp_all

lemmas unfold_both =
  processTransaction_def processWorkUnit_def workUnitFor_def step_def Let_def
  goto_def Unlock_def onNode_def onWorkUnit_def workUnitOf_def newWorkUnit_def
  addReceivedFrom_def Is_def UpdateState_def punish_def punishAll_effect Remove_def
  Trigger_def increaseKnownTxCount_def broadcast_def alone_def

lemma lone_task:
  assumes at: "pc (tasks s i) = L202" and free: "processingLock s (taskData (tasks s i)) = None"
  shows "case processTransaction env (taskPeer (tasks s i)) (taskData (tasks s i)) (node s) of
           Inl f \<Rightarrow> pc (tasks (run env (alone i) s) i) = Panicked
         | Inr w' \<Rightarrow>
             pc (tasks (run env (alone i) s) i) = Returned \<and> node (run env (alone i) s) = w'"
proof -
  let ?data = "taskData (tasks s i)"
  let ?wu = "workUnitOf (node s) ?data"
  have bytes: "workUnits (node s) ?data = None \<Longrightarrow> receivedMsgBytes ?wu = ?data"
    by (simp add: workUnitOf_def newWorkUnit_def)
  show ?thesis
  proof (cases "state ?wu")
    case Hashing
    with at free show ?thesis
      by (cases "workUnits (node s) ?data") (simp_all add: unfold_both)
  next
    case Invalid
    with at free show ?thesis
      by (cases "workUnits (node s) ?data") (simp_all add: unfold_both)
  next
    case Hashed
    show ?thesis
    proof (cases "msg ?wu")
      case None
      with Hashed at free show ?thesis
        by (cases "workUnits (node s) ?data") (simp_all add: unfold_both)
    next
      case (Some m)
      obtain r x1 where rq: "Received env (MessageID m) (ext (node s)) = (r, x1)"
        by (cases "Received env (MessageID m) (ext (node s))")
      with Some Hashed at free show ?thesis
        by (cases "workUnits (node s) ?data"; cases r) (simp_all add: unfold_both)
    qed
  next
    case Unhashed
    show ?thesis
    proof (cases "MessageFromBytes env (receivedMsgBytes ?wu) DeSeriModePerformValidation")
      case (Inl err)
      with Unhashed at free show ?thesis
        by (cases "workUnits (node s) ?data") (simp_all add: unfold_both)
    next
      case (Inr m)
      obtain r x1 where rq: "Received env (MessageID m) (ext (node s)) = (r, x1)"
        by (cases "Received env (MessageID m) (ext (node s))")
      with Inr Unhashed at free show ?thesis
        by (cases "workUnits (node s) ?data";
            cases "receivedTxHash ?wu \<in> invalidMilestoneHashes env")
          (simp_all add: unfold_both increaseKnownAll_commute)
    qed
  qed
qed

end
